theory Spec2Isabelle
  imports Main
begin

section \<open>The rqlite client adapter (src/bun/rqliteDatabase.ts)\<close>

subsection \<open>JavaScript values and errors\<close>

text \<open>
  The values the adapter handles have the TypeScript type \<open>any\<close>: parameters handed in by
  the caller and the value that \<open>response.json()\<close> yields. They are modelled as trees.
  An object is the list of its own enumerable properties in the order they were created
  (for a parsed response, the order of the JSON text); its keys are distinct. Finite
  numbers are integers: the adapter never computes with a number, it only compares a
  \<open>length\<close> with \<open>0\<close>. A string is a list of characters. A value that contains itself is
  no tree and is left out; functions, symbols and objects with methods are left out too.
\<close>

datatype nonfinite = NaN | PosInfinity | NegInfinity

datatype js =
    JUndefined
  | JNull
  | JBool bool
  | JNum int
  | JNonFinite nonfinite
  | JBigInt int
  | JStr string
  | JArr "js list"
  | JObj "(string \<times> js) list"

text \<open>
  What a rejected promise or a \<open>throw\<close> carries. \<open>ReferenceError\<close> names the identifier
  that is not bound, \<open>TypeError\<close> the expression that cannot be evaluated; \<open>SyntaxError\<close> is
  what \<open>response.json()\<close> rejects with on a body that is not JSON; \<open>FetchError\<close> stands for
  whatever \<open>fetch\<close> rejects with when the network call fails.
\<close>

datatype js_error =
    ReferenceError string
  | TypeError string
  | SyntaxError string
  | FetchError string

subsection \<open>Own property keys\<close>

text \<open>
  The language lists the own properties of an object with the array indices first, in
  ascending numeric order, and the other string keys after them, in the order they were
  created. An array index is the canonical decimal form of a number below \<open>2^32 - 1\<close>.
\<close>

definition is_digit :: "char \<Rightarrow> bool" where
  "is_digit c = (c \<in> set ''0123456789'')"

definition digit_value :: "char \<Rightarrow> nat" where
  "digit_value c = of_char c - 48"

definition array_index :: "string \<Rightarrow> nat option" where
  "array_index k =
     (case k of
        [] \<Rightarrow> None
      | c # cs \<Rightarrow>
          if \<not> list_all is_digit k then None
          else if c = CHR ''0'' \<and> cs \<noteq> [] then None
          else (let n = foldl (\<lambda>a d. 10 * a + digit_value d) 0 k
                in if n < 4294967295 then Some n else None))"

fun index_properties :: "(string \<times> 'a) list \<Rightarrow> (nat \<times> string \<times> 'a) list" where
  "index_properties [] = []"
| "index_properties ((k, v) # kvs) =
     (case array_index k of
        Some n \<Rightarrow> (n, k, v) # index_properties kvs
      | None \<Rightarrow> index_properties kvs)"

fun named_properties :: "(string \<times> 'a) list \<Rightarrow> (string \<times> 'a) list" where
  "named_properties [] = []"
| "named_properties ((k, v) # kvs) =
     (case array_index k of
        Some n \<Rightarrow> named_properties kvs
      | None \<Rightarrow> (k, v) # named_properties kvs)"

definition own_property_order :: "(string \<times> 'a) list \<Rightarrow> (string \<times> 'a) list" where
  "own_property_order kvs = map snd (sort_key fst (index_properties kvs)) @ named_properties kvs"

subsection \<open>JSON.stringify\<close>

text \<open>
  The JSON text \<open>JSON.stringify\<close> writes, as the document it denotes. \<open>undefined\<close> has no
  text: as a property it is left out, as an array element it is written \<open>null\<close>, and so is
  a number that is not finite. A BigInt has no text either, and there the call throws.
  The properties of an object are serialised here in the order they were created and
  put in the order of the own property keys afterwards; the text is the same, and so is
  the TypeError when one of them throws.
\<close>

datatype json_text =
    Text_null
  | Text_bool bool
  | Text_number int
  | Text_string string
  | Text_array "json_text list"
  | Text_object "(string \<times> json_text) list"

fun SerializeJSONProperty :: "js \<Rightarrow> js_error + json_text option"
  and SerializeJSONArray :: "js list \<Rightarrow> js_error + json_text list"
  and SerializeJSONObject :: "(string \<times> js) list \<Rightarrow> js_error + (string \<times> json_text) list"
where
  "SerializeJSONProperty JUndefined = Inr None"
| "SerializeJSONProperty JNull = Inr (Some Text_null)"
| "SerializeJSONProperty (JBool b) = Inr (Some (Text_bool b))"
| "SerializeJSONProperty (JNum n) = Inr (Some (Text_number n))"
| "SerializeJSONProperty (JNonFinite x) = Inr (Some Text_null)"
| "SerializeJSONProperty (JBigInt n) = Inl (TypeError ''JSON.stringify cannot serialize BigInt'')"
| "SerializeJSONProperty (JStr s) = Inr (Some (Text_string s))"
| "SerializeJSONProperty (JArr xs) =
     (case SerializeJSONArray xs of
        Inl e \<Rightarrow> Inl e
      | Inr ys \<Rightarrow> Inr (Some (Text_array ys)))"
| "SerializeJSONProperty (JObj kvs) =
     (case SerializeJSONObject kvs of
        Inl e \<Rightarrow> Inl e
      | Inr ps \<Rightarrow> Inr (Some (Text_object (own_property_order ps))))"
| "SerializeJSONArray [] = Inr []"
| "SerializeJSONArray (x # xs) =
     (case SerializeJSONProperty x of
        Inl e \<Rightarrow> Inl e
      | Inr y \<Rightarrow>
          (case SerializeJSONArray xs of
             Inl e \<Rightarrow> Inl e
           | Inr ys \<Rightarrow> Inr ((case y of None \<Rightarrow> Text_null | Some t \<Rightarrow> t) # ys)))"
| "SerializeJSONObject [] = Inr []"
| "SerializeJSONObject ((k, v) # kvs) =
     (case SerializeJSONProperty v of
        Inl e \<Rightarrow> Inl e
      | Inr y \<Rightarrow>
          (case SerializeJSONObject kvs of
             Inl e \<Rightarrow> Inl e
           | Inr ps \<Rightarrow> Inr (case y of None \<Rightarrow> ps | Some t \<Rightarrow> (k, t) # ps)))"

definition JSON_stringify :: "js \<Rightarrow> js_error + json_text option" where
  "JSON_stringify v = SerializeJSONProperty v"

subsection \<open>The platform: fetch and numeric coercion\<close>

text \<open>
  A request as \<open>fetch\<close> receives it; \<open>body\<close> is what \<open>JSON.stringify\<close> returned.
\<close>

record request =
  url :: string
  http_method :: string
  headers :: "(string \<times> string) list"
  body :: "json_text option"

text \<open>
  A \<open>Response\<close>: its HTTP status and the outcome of its \<open>json()\<close> method (the parsed body,
  or the error \<open>json()\<close> rejects with).
\<close>

record response =
  status :: nat
  json :: "js_error + js"

text \<open>
  The platform the adapter runs on. \<open>fetch\<close> is the network together with the remote
  service: from the service's state \<open>'r\<close> and a request it gives the outcome of the call
  (a rejection or a response) and the service's next state. \<open>ToNumber\<close> is the engine's
  numeric coercion of strings, arrays and objects (\<open>None\<close> is NaN); on the other values the
  language fixes the result and \<open>gt_zero\<close> below writes it out.
\<close>

record 'r platform =
  fetch :: "'r \<Rightarrow> request \<Rightarrow> (js_error + response) \<times> 'r"
  ToNumber :: "js \<Rightarrow> js_error + int option"

text \<open>The world: every request issued so far, in order, and the remote service's state.\<close>

record 'r world =
  sent :: "request list"
  remote :: 'r

type_synonym ('a, 'r) promise = "'r world \<Rightarrow> (js_error + 'a) \<times> 'r world"

text \<open>\<open>await m\<close> followed by the rest \<open>k\<close> of an async function: a rejection of \<open>m\<close> rejects the
  whole function with the same error.\<close>

definition await :: "('a, 'r) promise \<Rightarrow> ('a \<Rightarrow> ('b, 'r) promise) \<Rightarrow> ('b, 'r) promise" where
  "await m k w = (case m w of (Inl e, w') \<Rightarrow> (Inl e, w') | (Inr x, w') \<Rightarrow> k x w')"

text \<open>\<open>return v\<close> of an async function where evaluating \<open>v\<close> may throw.\<close>

definition settle :: "js_error + 'a \<Rightarrow> ('a, 'r) promise" where
  "settle v w = (v, w)"

text \<open>Sequencing of synchronous code that may throw.\<close>

definition andThen :: "js_error + 'a \<Rightarrow> ('a \<Rightarrow> js_error + 'b) \<Rightarrow> js_error + 'b" where
  "andThen v k = (case v of Inl e \<Rightarrow> Inl e | Inr x \<Rightarrow> k x)"

text \<open>The call \<open>fetch(url, init)\<close>: the request goes out and the service answers.\<close>

definition js_fetch :: "'r platform \<Rightarrow> request \<Rightarrow> (response, 'r) promise" where
  "js_fetch P req w =
     (case fetch P (remote w) req of
        (out, r') \<Rightarrow> (out, w\<lparr>sent := sent w @ [req], remote := r'\<rparr>))"

subsection \<open>The property reads of the adapter\<close>

text \<open>\<open>result.rows\<close>: no value but an object has a property of that name.\<close>

fun prop_rows :: "js \<Rightarrow> js_error + js" where
  "prop_rows JUndefined = Inl (TypeError ''undefined.rows'')"
| "prop_rows JNull = Inl (TypeError ''null.rows'')"
| "prop_rows (JObj kvs) = Inr (case map_of kvs ''rows'' of Some v \<Rightarrow> v | None \<Rightarrow> JUndefined)"
| "prop_rows v = Inr JUndefined"

text \<open>\<open>rows.length\<close>\<close>

fun prop_length :: "js \<Rightarrow> js_error + js" where
  "prop_length JUndefined = Inl (TypeError ''undefined.length'')"
| "prop_length JNull = Inl (TypeError ''null.length'')"
| "prop_length (JArr xs) = Inr (JNum (int (length xs)))"
| "prop_length (JStr s) = Inr (JNum (int (length s)))"
| "prop_length (JObj kvs) = Inr (case map_of kvs ''length'' of Some v \<Rightarrow> v | None \<Rightarrow> JUndefined)"
| "prop_length v = Inr JUndefined"

text \<open>\<open>rows[0]\<close>: out of range the read gives \<open>undefined\<close>, it does not throw.\<close>

fun index0 :: "js \<Rightarrow> js_error + js" where
  "index0 JUndefined = Inl (TypeError ''undefined[0]'')"
| "index0 JNull = Inl (TypeError ''null[0]'')"
| "index0 (JArr xs) = Inr (case xs of [] \<Rightarrow> JUndefined | x # _ \<Rightarrow> x)"
| "index0 (JStr s) = Inr (case s of [] \<Rightarrow> JUndefined | c # _ \<Rightarrow> JStr [c])"
| "index0 (JObj kvs) = Inr (case map_of kvs ''0'' of Some v \<Rightarrow> v | None \<Rightarrow> JUndefined)"
| "index0 v = Inr JUndefined"

text \<open>\<open>v > 0\<close>: \<open>undefined\<close> is NaN, \<open>null\<close> is 0, \<open>true\<close> is 1, \<open>false\<close> is 0; a BigInt is
  compared by its value.\<close>

definition gt_zero :: "'r platform \<Rightarrow> js \<Rightarrow> js_error + bool" where
  "gt_zero P v =
     (case v of
        JUndefined \<Rightarrow> Inr False
      | JNull \<Rightarrow> Inr False
      | JBool b \<Rightarrow> Inr b
      | JNum n \<Rightarrow> Inr (0 < n)
      | JNonFinite x \<Rightarrow> Inr (x = PosInfinity)
      | JBigInt n \<Rightarrow> Inr (0 < n)
      | _ \<Rightarrow> (case ToNumber P v of
                Inl e \<Rightarrow> Inl e
              | Inr None \<Rightarrow> Inr False
              | Inr (Some n) \<Rightarrow> Inr (0 < n)))"

text \<open>\<open>Object.values(row)\<close>: the values of the own properties, in the order of the own
  property keys.\<close>

fun Object_values :: "js \<Rightarrow> js_error + js list" where
  "Object_values JUndefined = Inl (TypeError ''Object.values(undefined)'')"
| "Object_values JNull = Inl (TypeError ''Object.values(null)'')"
| "Object_values (JObj kvs) = Inr (map snd (own_property_order kvs))"
| "Object_values (JArr xs) = Inr xs"
| "Object_values (JStr s) = Inr (map (\<lambda>c. JStr [c]) s)"
| "Object_values v = Inr []"

text \<open>\<open>rows.map(f)\<close> where \<open>rows\<close> is an array: the first throw of \<open>f\<close> ends the loop.\<close>

fun array_map :: "(js \<Rightarrow> js_error + js) \<Rightarrow> js list \<Rightarrow> js_error + js list" where
  "array_map f [] = Inr []"
| "array_map f (x # xs) =
     (case f x of
        Inl e \<Rightarrow> Inl e
      | Inr y \<Rightarrow> (case array_map f xs of Inl e \<Rightarrow> Inl e | Inr ys \<Rightarrow> Inr (y # ys)))"

text \<open>\<open>rows.map(f)\<close> on any value: only an array has a callable \<open>map\<close>.\<close>

fun js_map :: "(js \<Rightarrow> js_error + js) \<Rightarrow> js \<Rightarrow> js_error + js" where
  "js_map f JUndefined = Inl (TypeError ''undefined.map'')"
| "js_map f JNull = Inl (TypeError ''null.map'')"
| "js_map f (JArr xs) = (case array_map f xs of Inl e \<Rightarrow> Inl e | Inr ys \<Rightarrow> Inr (JArr ys))"
| "js_map f v = Inl (TypeError ''rows.map is not a function'')"

subsection \<open>class RqliteDatabase\<close>

record RqliteDatabase =
  baseUrl :: string

definition RqliteDatabase_new :: "string \<Rightarrow> RqliteDatabase" where
  "RqliteDatabase_new u = \<lparr>baseUrl = u\<rparr>"

text \<open>
  The methods take the SQL text and the parameter list; a caller that leaves \<open>params\<close> out
  passes the default \<open>[]\<close>. Each \<open>async\<close> method is a function from the world to its outcome
  (\<open>Inl\<close> a rejection, \<open>Inr\<close> the value it resolves to) and the world it leaves.
\<close>

text \<open>
  The arguments \<open>_executeQuery\<close> builds for \<open>fetch\<close> (lines 64-68). They are evaluated
  before \<open>fetch\<close> is called: where \<open>JSON.stringify\<close> throws there is no request.
\<close>

definition execute_request :: "RqliteDatabase \<Rightarrow> string \<Rightarrow> js list \<Rightarrow> js_error + request" where
  "execute_request this sql params =
     andThen (JSON_stringify (JObj [(''sql'', JStr sql), (''params'', JArr params)])) (\<lambda>text.
       Inr \<lparr>url = baseUrl this @ ''/db/execute'',
            http_method = ''POST'',
            headers = [(''Content-Type'', ''application/json'')],
            body = text\<rparr>)"

definition executeQuery :: "'r platform \<Rightarrow> RqliteDatabase \<Rightarrow> string \<Rightarrow> js list \<Rightarrow> (js, 'r) promise" where
  "executeQuery P this sql params =
     await (settle (execute_request this sql params)) (\<lambda>req.
     await (js_fetch P req) (\<lambda>response.
       settle (json response)))"

definition RqliteDatabase_run :: "'r platform \<Rightarrow> RqliteDatabase \<Rightarrow> string \<Rightarrow> js list \<Rightarrow> (js, 'r) promise" where
  "RqliteDatabase_run P this sql params =
     await (executeQuery P this sql params) (\<lambda>result. settle (Inr result))"

definition RqliteDatabase_query :: "'r platform \<Rightarrow> RqliteDatabase \<Rightarrow> string \<Rightarrow> js list \<Rightarrow> (js, 'r) promise" where
  "RqliteDatabase_query P this sql params =
     await (executeQuery P this sql params) (\<lambda>result. settle (prop_rows result))"

text \<open>\<open>rows.length > 0 ? rows[0] : null\<close>\<close>

definition first_or_null :: "'r platform \<Rightarrow> js \<Rightarrow> js_error + js" where
  "first_or_null P rows =
     andThen (prop_length rows) (\<lambda>n.
     andThen (gt_zero P n) (\<lambda>b.
       if b then index0 rows else Inr JNull))"

definition RqliteDatabase_get :: "'r platform \<Rightarrow> RqliteDatabase \<Rightarrow> string \<Rightarrow> js list \<Rightarrow> (js, 'r) promise" where
  "RqliteDatabase_get P this sql params =
     await (RqliteDatabase_query P this sql params) (\<lambda>rows. settle (first_or_null P rows))"

subsection \<open>class Statements\<close>

record Statements =
  db :: RqliteDatabase
  sql :: string
  params :: "js list"

definition Statements_new :: "RqliteDatabase \<Rightarrow> string \<Rightarrow> Statements" where
  "Statements_new d s = \<lparr>db = d, sql = s, params = []\<rparr>"

definition Statements_bind :: "js list \<Rightarrow> Statements \<Rightarrow> Statements" where
  "Statements_bind ps this = this\<lparr>params := ps\<rparr>"

definition Statements_all :: "'r platform \<Rightarrow> Statements \<Rightarrow> (js, 'r) promise" where
  "Statements_all P this = RqliteDatabase_query P (db this) (sql this) (params this)"

definition Statements_get :: "'r platform \<Rightarrow> Statements \<Rightarrow> (js, 'r) promise" where
  "Statements_get P this = RqliteDatabase_get P (db this) (sql this) (params this)"

definition Statements_run :: "'r platform \<Rightarrow> Statements \<Rightarrow> (js, 'r) promise" where
  "Statements_run P this = RqliteDatabase_run P (db this) (sql this) (params this)"

text \<open>\<open>row => Object.values(row)[0]\<close>\<close>

definition first_value :: "js \<Rightarrow> js_error + js" where
  "first_value row = andThen (Object_values row) (\<lambda>vs. index0 (JArr vs))"

definition Statements_values :: "'r platform \<Rightarrow> Statements \<Rightarrow> (js, 'r) promise" where
  "Statements_values P this =
     await (Statements_all P this) (\<lambda>rows. settle (js_map first_value rows))"

definition Statements_finalize :: "Statements \<Rightarrow> Statements" where
  "Statements_finalize this = this\<lparr>sql := [], params := []\<rparr>"

definition Statements_toString :: "Statements \<Rightarrow> string" where
  "Statements_toString this = sql this"

subsection \<open>RqliteDatabase.prepare\<close>

text \<open>
  The classes the module declares, by name. \<open>prepare\<close> evaluates \<open>new Statement(this, sql)\<close>:
  the identifier \<open>Statement\<close> is looked up when the call runs, and an identifier that is
  bound nowhere throws a ReferenceError. (The return-type annotation and the doc comments
  name \<open>Statement\<close> too; they are erased before the code runs.)
\<close>

definition module_class :: "string \<Rightarrow> (RqliteDatabase \<Rightarrow> string \<Rightarrow> Statements) option" where
  "module_class name = (if name = ''Statements'' then Some Statements_new else None)"

definition RqliteDatabase_prepare :: "RqliteDatabase \<Rightarrow> string \<Rightarrow> js_error + Statements" where
  "RqliteDatabase_prepare this s =
     (case module_class ''Statement'' of
        None \<Rightarrow> Inl (ReferenceError ''Statement'')
      | Some construct \<Rightarrow> Inr (construct this s))"

subsection \<open>Sequences of method calls on one statement\<close>

text \<open>
  The public methods of \<open>Statements\<close>. A call changes the statement only where the method
  assigns to \<open>this.sql\<close> or \<open>this.params\<close> (\<open>bind\<close>, \<open>finalize\<close>); the four executing
  methods change the world only. The value a call returns is dropped here.
\<close>

datatype call =
    Call_bind "js list"
  | Call_all
  | Call_get
  | Call_run
  | Call_values
  | Call_finalize
  | Call_toString

fun invoke :: "'r platform \<Rightarrow> call \<Rightarrow> Statements \<times> 'r world \<Rightarrow> Statements \<times> 'r world" where
  "invoke P (Call_bind ps) (this, w) = (Statements_bind ps this, w)"
| "invoke P Call_all (this, w) = (this, snd (Statements_all P this w))"
| "invoke P Call_get (this, w) = (this, snd (Statements_get P this w))"
| "invoke P Call_run (this, w) = (this, snd (Statements_run P this w))"
| "invoke P Call_values (this, w) = (this, snd (Statements_values P this w))"
| "invoke P Call_finalize (this, w) = (Statements_finalize this, w)"
| "invoke P Call_toString (this, w) = (this, w)"

fun session :: "'r platform \<Rightarrow> call list \<Rightarrow> Statements \<times> 'r world \<Rightarrow> Statements \<times> 'r world" where
  "session P [] x = x"
| "session P (c # cs) x = session P cs (invoke P c x)"

fun executes :: "call \<Rightarrow> bool" where
  "executes Call_all = True"
| "executes Call_get = True"
| "executes Call_run = True"
| "executes Call_values = True"
| "executes c = False"

fun rebinds :: "call \<Rightarrow> bool" where
  "rebinds (Call_bind ps) = True"
| "rebinds Call_finalize = True"
| "rebinds c = False"

subsection \<open>The data model of the specification\<close>

text \<open>
  The specification's words, to compare the code with: a row object is a mapping from
  column names to values, a query result a sequence of row objects, the first column of a
  row the first property of the row as the response gives it (absent when the row has no
  column), and an execution result a record carrying an affected-row count and a
  last-inserted identifier.
\<close>

definition spec_row_object :: "js \<Rightarrow> bool" where
  "spec_row_object v = (case v of JObj kvs \<Rightarrow> True | _ \<Rightarrow> False)"

definition spec_row_sequence :: "js \<Rightarrow> bool" where
  "spec_row_sequence v = (case v of JArr rs \<Rightarrow> list_all spec_row_object rs | _ \<Rightarrow> False)"


definition spec_is_number :: "js option \<Rightarrow> bool" where
  "spec_is_number p = (case p of Some (JNum n) \<Rightarrow> True | _ \<Rightarrow> False)"

definition spec_execution_result :: "js \<Rightarrow> bool" where
  "spec_execution_result v =
     (case v of
        JObj kvs \<Rightarrow> spec_is_number (map_of kvs ''changes'') \<and> spec_is_number (map_of kvs ''lastInsertRowid'')
      | _ \<Rightarrow> False)"


subsection \<open>A stub remote endpoint\<close>

text \<open>
  A remote service that answers every request alike and counts the requests it has seen,
  for evaluating the adapter on concrete inputs.
\<close>

definition stub :: "js_error + response \<Rightarrow> nat platform" where
  "stub out = \<lparr>fetch = (\<lambda>n req. (out, Suc n)), ToNumber = (\<lambda>v. Inr None)\<rparr>"

definition replies :: "nat \<Rightarrow> js \<Rightarrow> js_error + response" where
  "replies code v = Inr \<lparr>status = code, json = Inr v\<rparr>"

definition w0 :: "nat world" where
  "w0 = \<lparr>sent = [], remote = 0\<rparr>"

section \<open>Properties\<close>

subsection \<open>What one call does\<close>

text \<open>The world after one request, and the value or error the request yields; the requests
  a call with the given arguments sends.\<close>

definition step_world :: "'r platform \<Rightarrow> request \<Rightarrow> 'r world \<Rightarrow> 'r world" where
  "step_world P req w = w\<lparr>sent := sent w @ [req], remote := snd (fetch P (remote w) req)\<rparr>"

definition answer :: "'r platform \<Rightarrow> request \<Rightarrow> 'r world \<Rightarrow> js_error + js" where
  "answer P req w = andThen (fst (fetch P (remote w) req)) json"

definition requests_of :: "RqliteDatabase \<Rightarrow> string \<Rightarrow> js list \<Rightarrow> request list" where
  "requests_of d s ps = (case execute_request d s ps of Inl e \<Rightarrow> [] | Inr req \<Rightarrow> [req])"

lemma array_index_sql: "array_index ''sql'' = None" "array_index ''params'' = None"
  by (simp_all add: array_index_def is_digit_def)

lemma own_property_order_named:
  "list_all (\<lambda>kv. array_index (fst kv) = None) kvs \<Longrightarrow> own_property_order kvs = kvs"
proof -
  assume a: "list_all (\<lambda>kv. array_index (fst kv) = None) kvs"
  then have "index_properties kvs = []" by (induction kvs) auto
  moreover from a have "named_properties kvs = kvs" by (induction kvs) auto
  ultimately show ?thesis by (simp add: own_property_order_def)
qed

lemma stringify_request:
  "JSON_stringify (JObj [(''sql'', JStr s), (''params'', JArr ps)]) =
     (case SerializeJSONArray ps of
        Inl e \<Rightarrow> Inl e
      | Inr ys \<Rightarrow> Inr (Some (Text_object [(''sql'', Text_string s), (''params'', Text_array ys)])))"
  by (simp add: JSON_stringify_def own_property_order_named array_index_sql split: sum.splits)

lemma execute_request_eq:
  "execute_request d s ps =
     (case SerializeJSONArray ps of
        Inl e \<Rightarrow> Inl e
      | Inr ys \<Rightarrow>
          Inr \<lparr>url = baseUrl d @ ''/db/execute'',
               http_method = ''POST'',
               headers = [(''Content-Type'', ''application/json'')],
               body = Some (Text_object [(''sql'', Text_string s), (''params'', Text_array ys)])\<rparr>)"
  by (simp add: execute_request_def stringify_request andThen_def split: sum.splits)

lemma executeQuery_eq:
  "executeQuery P d s ps w =
     (case execute_request d s ps of
        Inl e \<Rightarrow> (Inl e, w)
      | Inr req \<Rightarrow> (answer P req w, step_world P req w))"
  by (simp add: executeQuery_def await_def js_fetch_def settle_def answer_def step_world_def
      andThen_def split: prod.splits sum.splits)

lemma run_eq:
  "RqliteDatabase_run P d s ps w =
     (case execute_request d s ps of
        Inl e \<Rightarrow> (Inl e, w)
      | Inr req \<Rightarrow> (answer P req w, step_world P req w))"
  by (simp add: RqliteDatabase_run_def await_def executeQuery_eq settle_def split: sum.splits)

lemma query_eq:
  "RqliteDatabase_query P d s ps w =
     (case execute_request d s ps of
        Inl e \<Rightarrow> (Inl e, w)
      | Inr req \<Rightarrow> (andThen (answer P req w) prop_rows, step_world P req w))"
  by (simp add: RqliteDatabase_query_def await_def executeQuery_eq settle_def andThen_def
      split: sum.splits)

lemma get_eq:
  "RqliteDatabase_get P d s ps w =
     (case execute_request d s ps of
        Inl e \<Rightarrow> (Inl e, w)
      | Inr req \<Rightarrow>
          (andThen (andThen (answer P req w) prop_rows) (first_or_null P), step_world P req w))"
  by (simp add: RqliteDatabase_get_def await_def query_eq settle_def andThen_def
      split: sum.splits)

lemma values_eq:
  "Statements_values P st w =
     (andThen (fst (Statements_all P st w)) (js_map first_value), snd (Statements_all P st w))"
  by (simp add: Statements_values_def await_def settle_def andThen_def split: prod.splits sum.splits)

lemma first_or_null_array:
  "first_or_null P (JArr rs) = Inr (case rs of [] \<Rightarrow> JNull | r # _ \<Rightarrow> r)"
  by (cases rs) (simp_all add: first_or_null_def andThen_def gt_zero_def)


lemma sent_after_call:
  "sent (snd (RqliteDatabase_run P d s ps w)) = sent w @ requests_of d s ps"
  "sent (snd (RqliteDatabase_get P d s ps w)) = sent w @ requests_of d s ps"
  "sent (snd (RqliteDatabase_query P d s ps w)) = sent w @ requests_of d s ps"
  by (simp_all add: run_eq get_eq query_eq requests_of_def step_world_def split: sum.splits)

lemma invoke_sent:
  "sent (snd (invoke P c (st, w))) =
     sent w @ (if executes c then requests_of (db st) (sql st) (params st) else [])"
  by (cases c)
    (simp_all add: Statements_all_def Statements_get_def Statements_run_def values_eq
      sent_after_call)

lemma session_finalized:
  "sql st = [] \<Longrightarrow> sql (fst (session P cs (st, w))) = []"
proof (induction cs arbitrary: st w)
  case Nil
  then show ?case by simp
next
  case (Cons c cs)
  obtain st' w' where step: "invoke P c (st, w) = (st', w')"
    by (cases "invoke P c (st, w)")
  have "st' = fst (invoke P c (st, w))" by (simp add: step)
  then have "sql st' = []"
    using Cons.prems
    by (cases c) (simp_all add: Statements_bind_def Statements_finalize_def)
  then show ?case using Cons.IH [of st' w'] by (simp add: step)
qed

lemma session_keeps_binding:
  "list_all (\<lambda>c. \<not> rebinds c) cs \<Longrightarrow>
   session P cs (st, w) = (st', w') \<Longrightarrow>
   st' = st \<and>
   sent w' = sent w @ concat (replicate (length (filter executes cs)) (requests_of (db st) (sql st) (params st)))"
proof (induction cs arbitrary: w)
  case Nil
  then show ?case by simp
next
  case (Cons c cs)
  obtain st1 w1 where step: "invoke P c (st, w) = (st1, w1)"
    by (cases "invoke P c (st, w)")
  from Cons.prems(1) have nb: "\<not> rebinds c" and rest: "list_all (\<lambda>c. \<not> rebinds c) cs"
    by simp_all
  have "st1 = fst (invoke P c (st, w))" by (simp add: step)
  with nb have st1: "st1 = st" by (cases c) simp_all
  have "sent w1 = sent (snd (invoke P c (st, w)))" by (simp add: step)
  then have w1: "sent w1 = sent w @ (if executes c then requests_of (db st) (sql st) (params st) else [])"
    by (simp only: invoke_sent)
  from Cons.prems(2) have "session P cs (st, w1) = (st', w')"
    by (simp add: step st1)
  from Cons.IH [OF rest this] w1 show ?case
    by simp
qed

lemma Statements_new_fields:
  "db (Statements_new d s) = d \<and> sql (Statements_new d s) = s \<and> params (Statements_new d s) = []"
  by (simp add: Statements_new_def)

lemma prepare_always_throws:
  "RqliteDatabase_prepare d s = Inl (ReferenceError ''Statement'')"
  by (simp add: RqliteDatabase_prepare_def module_class_def)

subsection \<open>prepare\<close>

text \<open>
  C1. The claim: for every SQL string \<open>s\<close>, \<open>prepare(s)\<close> returns a prepared statement pairing
  \<open>s\<close> with an empty parameter list, and the call succeeds. The constructor of the class
  \<open>Statements\<close> does build that object (\<open>Statements_new_fields\<close>), but \<open>prepare\<close> names a class
  \<open>Statement\<close>, which the module does not declare: on the database at
  \<open>http://localhost:4001\<close> and the SQL text \<open>SELECT 1\<close> the call throws a ReferenceError and
  returns no statement (as it does on every input, \<open>prepare_always_throws\<close>).
\<close>

theorem prepare_throws_ReferenceError:
  "RqliteDatabase_prepare (RqliteDatabase_new ''http://localhost:4001'') ''SELECT 1''
     = Inl (ReferenceError ''Statement'')"
  by (simp add: RqliteDatabase_prepare_def module_class_def)

subsection \<open>run\<close>

text \<open>
  C2, as amended. For every SQL string, every parameter list that \<open>JSON.stringify\<close> can
  serialise and every remote JSON response: \<open>run\<close> sends one POST request to the base URL
  followed by \<open>/db/execute\<close>, whose body is the JSON text of the object holding the given
  SQL text and the serialised parameter list (an \<open>undefined\<close> or non-finite parameter is
  written \<open>null\<close>), and it resolves to the parsed body \<open>v\<close> of the response itself: what
  the service reported comes back unchanged, and it carries a change count and a
  last-inserted identifier where the service's body does. (The claim as stated, that the
  given list is sent exactly and that every response comes back as a record with the two
  counts, fails.)
\<close>

theorem run_sends_serialised_and_returns_body:
  assumes "SerializeJSONArray ps = Inr ys"
      and "fetch P (remote w)
             \<lparr>url = baseUrl d @ ''/db/execute'',
               http_method = ''POST'',
               headers = [(''Content-Type'', ''application/json'')],
               body = Some (Text_object [(''sql'', Text_string s), (''params'', Text_array ys)])\<rparr>
           = (Inr resp, r')"
      and "json resp = Inr v"
  shows "RqliteDatabase_run P d s ps w
           = (Inr v,
              w\<lparr>sent := sent w @
                  [\<lparr>url = baseUrl d @ ''/db/execute'',
                     http_method = ''POST'',
                     headers = [(''Content-Type'', ''application/json'')],
                     body = Some (Text_object [(''sql'', Text_string s), (''params'', Text_array ys)])\<rparr>],
                remote := r'\<rparr>)"
  using assms
  by (simp add: run_eq execute_request_eq answer_def step_world_def andThen_def)

text \<open>
  The theorem at a stub service that reports one changed row and the inserted identifier 7.
\<close>

theorem run_sends_serialised_and_returns_body_witness:
  "RqliteDatabase_run (stub (replies 200 (JObj [(''changes'', JNum 1), (''lastInsertRowid'', JNum 7)])))
       (RqliteDatabase_new ''http://localhost:4001'') ''INSERT INTO t VALUES (?)'' [JStr ''a''] w0
     = (Inr (JObj [(''changes'', JNum 1), (''lastInsertRowid'', JNum 7)]),
        \<lparr>sent = [\<lparr>url = ''http://localhost:4001/db/execute'',
                 http_method = ''POST'',
                 headers = [(''Content-Type'', ''application/json'')],
                 body = Some (Text_object [(''sql'', Text_string ''INSERT INTO t VALUES (?)''), (''params'', Text_array [Text_string ''a''])])\<rparr>],
         remote = 1\<rparr>)"
  using run_sends_serialised_and_returns_body
    [of "[JStr ''a'']" "[Text_string ''a'']"
        "stub (replies 200 (JObj [(''changes'', JNum 1), (''lastInsertRowid'', JNum 7)]))" w0
        "RqliteDatabase_new ''http://localhost:4001''" "''INSERT INTO t VALUES (?)''"
        "\<lparr>status = 200, json = Inr (JObj [(''changes'', JNum 1), (''lastInsertRowid'', JNum 7)])\<rparr>" 1
        "JObj [(''changes'', JNum 1), (''lastInsertRowid'', JNum 7)]"]
  by (simp add: stub_def replies_def w0_def RqliteDatabase_new_def)

text \<open>
  Where the claim as stated fails: \<open>run\<close> is called with the parameter list
  \<open>[undefined]\<close> and the service answers with a body holding no counts. The request
  carries \<open>[null]\<close>, the text it would carry for the list \<open>[null]\<close>, and \<open>run\<close> resolves to
  the body as it is, which is no record with a change count and an inserted identifier.
\<close>

theorem run_not_exact_counterexample:
  "RqliteDatabase_run (stub (replies 200 (JObj [(''rows'', JArr [])])))
       (RqliteDatabase_new ''http://localhost:4001'') ''INSERT INTO t VALUES (?)'' [JUndefined] w0
     = (Inr (JObj [(''rows'', JArr [])]),
        \<lparr>sent = [\<lparr>url = ''http://localhost:4001/db/execute'',
                 http_method = ''POST'',
                 headers = [(''Content-Type'', ''application/json'')],
                 body = Some (Text_object [(''sql'', Text_string ''INSERT INTO t VALUES (?)''), (''params'', Text_array [Text_null])])\<rparr>],
         remote = 1\<rparr>)
   \<and> \<not> spec_execution_result (JObj [(''rows'', JArr [])])
   \<and> execute_request (RqliteDatabase_new ''http://localhost:4001'') ''INSERT INTO t VALUES (?)'' [JUndefined]
     = execute_request (RqliteDatabase_new ''http://localhost:4001'') ''INSERT INTO t VALUES (?)'' [JNull]"
  by (simp add: run_eq execute_request_eq answer_def step_world_def andThen_def stub_def
      replies_def w0_def RqliteDatabase_new_def spec_execution_result_def spec_is_number_def)

subsection \<open>query\<close>

text \<open>
  C3, as amended. For every remote JSON response that is an object whose \<open>rows\<close> property
  is an array, \<open>query\<close> resolves to exactly that array: the same elements in the same order.
  (The claim as stated, that \<open>query\<close> yields a sequence of row objects for every remote JSON
  response, fails: \<open>query\<close> hands out the \<open>rows\<close> property as it is and checks nothing.)
\<close>

theorem query_returns_rows_property:
  assumes "execute_request d s ps = Inr req"
      and "fetch P (remote w) req = (Inr resp, r')"
      and "json resp = Inr (JObj kvs)"
      and "map_of kvs ''rows'' = Some (JArr rs)"
  shows "RqliteDatabase_query P d s ps w
           = (Inr (JArr rs), w\<lparr>sent := sent w @ [req], remote := r'\<rparr>)"
  using assms
  by (simp add: query_eq answer_def step_world_def andThen_def)

text \<open>
  The theorem at a stub service that answers with two rows, \<open>id = 2\<close> before \<open>id = 1\<close>.
\<close>

theorem query_returns_rows_property_witness:
  "RqliteDatabase_query
       (stub (replies 200 (JObj [(''rows'', JArr [JObj [(''id'', JNum 2)], JObj [(''id'', JNum 1)]])])))
       (RqliteDatabase_new ''http://localhost:4001'') ''SELECT id FROM t'' [] w0
     = (Inr (JArr [JObj [(''id'', JNum 2)], JObj [(''id'', JNum 1)]]),
        \<lparr>sent = [\<lparr>url = ''http://localhost:4001/db/execute'',
                 http_method = ''POST'',
                 headers = [(''Content-Type'', ''application/json'')],
                 body = Some (Text_object [(''sql'', Text_string ''SELECT id FROM t''), (''params'', Text_array [])])\<rparr>],
         remote = 1\<rparr>)"
  using query_returns_rows_property
    [of "RqliteDatabase_new ''http://localhost:4001''" "''SELECT id FROM t''" "[]"
        "\<lparr>url = ''http://localhost:4001/db/execute'',
          http_method = ''POST'',
          headers = [(''Content-Type'', ''application/json'')],
          body = Some (Text_object [(''sql'', Text_string ''SELECT id FROM t''), (''params'', Text_array [])])\<rparr>"
        "stub (replies 200 (JObj [(''rows'', JArr [JObj [(''id'', JNum 2)], JObj [(''id'', JNum 1)]])]))" w0
        "\<lparr>status = 200, json = Inr (JObj [(''rows'', JArr [JObj [(''id'', JNum 2)], JObj [(''id'', JNum 1)]])])\<rparr>"
        1 "[(''rows'', JArr [JObj [(''id'', JNum 2)], JObj [(''id'', JNum 1)]])]"
        "[JObj [(''id'', JNum 2)], JObj [(''id'', JNum 1)]]"]
  by (simp add: execute_request_eq stub_def replies_def w0_def RqliteDatabase_new_def)

text \<open>
  Where the claim as stated fails: the service answers with a change summary, a JSON body
  with no \<open>rows\<close> property. \<open>query\<close> resolves to \<open>undefined\<close>, which is no sequence of rows.
\<close>

theorem query_not_always_rows_counterexample:
  "fst (RqliteDatabase_query (stub (replies 200 (JObj [(''changes'', JNum 1), (''lastInsertRowid'', JNum 7)])))
         (RqliteDatabase_new ''http://localhost:4001'') ''SELECT * FROM t'' [] w0) = Inr JUndefined
   \<and> \<not> spec_row_sequence JUndefined"
  by (simp add: query_eq execute_request_eq answer_def andThen_def stub_def replies_def w0_def
      spec_row_sequence_def)

subsection \<open>Failures\<close>

text \<open>
  C4, as amended. For every call to \<open>run\<close>, \<open>get\<close> or \<open>query\<close>: if the network call fails
  (\<open>fetch\<close> rejects with \<open>e\<close>) or the body of the response cannot be read as JSON
  (\<open>response.json()\<close> rejects with \<open>e\<close>), the call rejects with that same \<open>e\<close>: it is not
  classified, wrapped, recovered from or turned into a normal result. (The claim as stated
  also covers a response with a non-success status; the adapter never reads the status, and
  such a response with a JSON body gives a normal result.)
\<close>

theorem failures_propagate:
  assumes "execute_request d s ps = Inr req"
      and "fetch P (remote w) req = (out, r')"
      and "out = Inl e \<or> (out = Inr resp \<and> json resp = Inl e)"
  shows "RqliteDatabase_run P d s ps w
           = (Inl e, w\<lparr>sent := sent w @ [req], remote := r'\<rparr>)
         \<and> RqliteDatabase_get P d s ps w
           = (Inl e, w\<lparr>sent := sent w @ [req], remote := r'\<rparr>)
         \<and> RqliteDatabase_query P d s ps w
           = (Inl e, w\<lparr>sent := sent w @ [req], remote := r'\<rparr>)"
  using assms
  by (auto simp add: run_eq get_eq query_eq answer_def step_world_def andThen_def)

text \<open>
  The theorem at a stub service whose connection is refused, and at one that answers 502
  with a body that is not JSON.
\<close>

theorem failures_propagate_witness:
  "fst (RqliteDatabase_run (stub (Inl (FetchError ''ECONNREFUSED'')))
         (RqliteDatabase_new ''http://localhost:4001'') ''SELECT 1'' [] w0)
     = Inl (FetchError ''ECONNREFUSED'')
   \<and> fst (RqliteDatabase_get (stub (Inl (FetchError ''ECONNREFUSED'')))
         (RqliteDatabase_new ''http://localhost:4001'') ''SELECT 1'' [] w0)
     = Inl (FetchError ''ECONNREFUSED'')
   \<and> fst (RqliteDatabase_query (stub (Inr \<lparr>status = 502, json = Inl (SyntaxError ''Bad Gateway'')\<rparr>))
         (RqliteDatabase_new ''http://localhost:4001'') ''SELECT 1'' [] w0)
     = Inl (SyntaxError ''Bad Gateway'')"
  using
    failures_propagate
      [of "RqliteDatabase_new ''http://localhost:4001''" "''SELECT 1''" "[]"
          "\<lparr>url = ''http://localhost:4001/db/execute'',
            http_method = ''POST'',
            headers = [(''Content-Type'', ''application/json'')],
            body = Some (Text_object [(''sql'', Text_string ''SELECT 1''), (''params'', Text_array [])])\<rparr>"
          "stub (Inl (FetchError ''ECONNREFUSED''))" w0
          "Inl (FetchError ''ECONNREFUSED'')" 1 "FetchError ''ECONNREFUSED''"]
    failures_propagate
      [of "RqliteDatabase_new ''http://localhost:4001''" "''SELECT 1''" "[]"
          "\<lparr>url = ''http://localhost:4001/db/execute'',
            http_method = ''POST'',
            headers = [(''Content-Type'', ''application/json'')],
            body = Some (Text_object [(''sql'', Text_string ''SELECT 1''), (''params'', Text_array [])])\<rparr>"
          "stub (Inr \<lparr>status = 502, json = Inl (SyntaxError ''Bad Gateway'')\<rparr>)" w0
          "Inr \<lparr>status = 502, json = Inl (SyntaxError ''Bad Gateway'')\<rparr>" 1
          "SyntaxError ''Bad Gateway''" "\<lparr>status = 502, json = Inl (SyntaxError ''Bad Gateway'')\<rparr>"]
  by (simp add: execute_request_eq stub_def w0_def RqliteDatabase_new_def)

text \<open>
  Where the claim as stated fails: the service answers with status 500 and a JSON body
  describing the error. \<open>run\<close> resolves to that body as its normal result.
\<close>

theorem non_success_response_returned_counterexample:
  "fst (RqliteDatabase_run (stub (replies 500 (JObj [(''error'', JStr ''no such table: t'')])))
         (RqliteDatabase_new ''http://localhost:4001'') ''DELETE FROM t'' [] w0)
     = Inr (JObj [(''error'', JStr ''no such table: t'')])"
  by (simp add: run_eq execute_request_eq answer_def andThen_def stub_def replies_def w0_def)

subsection \<open>get\<close>

text \<open>
  C5, as amended. For every SQL string and parameter list: when the remote response is an
  object whose \<open>rows\<close> property is an array of row objects, \<open>get\<close> resolves to \<open>null\<close>
  exactly when that array is empty, and to its first element otherwise. (The claim as
  stated fails on a response that has no \<open>rows\<close> property at all.)
\<close>

theorem get_null_iff_no_rows:
  assumes "execute_request d s ps = Inr req"
      and "fetch P (remote w) req = (Inr resp, r')"
      and "json resp = Inr (JObj kvs)"
      and "map_of kvs ''rows'' = Some (JArr rs)"
      and "list_all spec_row_object rs"
  shows "RqliteDatabase_get P d s ps w
           = (Inr (case rs of [] \<Rightarrow> JNull | r # _ \<Rightarrow> r),
              w\<lparr>sent := sent w @ [req], remote := r'\<rparr>)
         \<and> (fst (RqliteDatabase_get P d s ps w) = Inr JNull) = (rs = [])"
proof -
  have result: "fst (RqliteDatabase_get P d s ps w) = Inr (case rs of [] \<Rightarrow> JNull | r # _ \<Rightarrow> r)"
    using assms(1-4) by (simp add: get_eq answer_def andThen_def first_or_null_array)
  have world: "snd (RqliteDatabase_get P d s ps w) = w\<lparr>sent := sent w @ [req], remote := r'\<rparr>"
    using assms(1,2) by (simp add: get_eq step_world_def)
  have "(case rs of [] \<Rightarrow> JNull | r # _ \<Rightarrow> r) = JNull \<longleftrightarrow> rs = []"
    using assms(5) by (cases rs) (auto simp: spec_row_object_def)
  with result world show ?thesis
    by (simp add: prod_eq_iff)
qed

text \<open>
  The theorem at a stub service that answers with no row, and at one that answers with
  two rows.
\<close>

theorem get_null_iff_no_rows_witness:
  "fst (RqliteDatabase_get (stub (replies 200 (JObj [(''rows'', JArr [])])))
         (RqliteDatabase_new ''http://localhost:4001'') ''SELECT id FROM t'' [] w0) = Inr JNull
   \<and> fst (RqliteDatabase_get
         (stub (replies 200 (JObj [(''rows'', JArr [JObj [(''id'', JNum 2)], JObj [(''id'', JNum 1)]])])))
         (RqliteDatabase_new ''http://localhost:4001'') ''SELECT id FROM t'' [] w0)
     = Inr (JObj [(''id'', JNum 2)])"
  using
    get_null_iff_no_rows
      [of "RqliteDatabase_new ''http://localhost:4001''" "''SELECT id FROM t''" "[]"
          "\<lparr>url = ''http://localhost:4001/db/execute'',
            http_method = ''POST'',
            headers = [(''Content-Type'', ''application/json'')],
            body = Some (Text_object [(''sql'', Text_string ''SELECT id FROM t''), (''params'', Text_array [])])\<rparr>"
          "stub (replies 200 (JObj [(''rows'', JArr [])]))" w0
          "\<lparr>status = 200, json = Inr (JObj [(''rows'', JArr [])])\<rparr>" 1
          "[(''rows'', JArr [])]" "[]"]
    get_null_iff_no_rows
      [of "RqliteDatabase_new ''http://localhost:4001''" "''SELECT id FROM t''" "[]"
          "\<lparr>url = ''http://localhost:4001/db/execute'',
            http_method = ''POST'',
            headers = [(''Content-Type'', ''application/json'')],
            body = Some (Text_object [(''sql'', Text_string ''SELECT id FROM t''), (''params'', Text_array [])])\<rparr>"
          "stub (replies 200 (JObj [(''rows'', JArr [JObj [(''id'', JNum 2)], JObj [(''id'', JNum 1)]])]))" w0
          "\<lparr>status = 200, json = Inr (JObj [(''rows'', JArr [JObj [(''id'', JNum 2)], JObj [(''id'', JNum 1)]])])\<rparr>" 1
          "[(''rows'', JArr [JObj [(''id'', JNum 2)], JObj [(''id'', JNum 1)]])]"
          "[JObj [(''id'', JNum 2)], JObj [(''id'', JNum 1)]]"]
  by (simp add: execute_request_eq stub_def replies_def w0_def spec_row_object_def
      RqliteDatabase_new_def)

text \<open>
  Where the claim as stated fails: the service answers with a change summary, which
  contains no rows. \<open>get\<close> does not resolve to \<open>null\<close>: reading \<open>rows.length\<close> throws a
  TypeError.
\<close>

theorem get_without_rows_counterexample:
  "fst (RqliteDatabase_get (stub (replies 200 (JObj [(''changes'', JNum 1), (''lastInsertRowid'', JNum 7)])))
         (RqliteDatabase_new ''http://localhost:4001'') ''SELECT * FROM t'' [] w0)
     = Inl (TypeError ''undefined.length'')"
  by (simp add: get_eq execute_request_eq answer_def andThen_def stub_def replies_def w0_def
      first_or_null_def)

subsection \<open>finalize\<close>

text \<open>
  C6. For every prepared statement in every state, \<open>finalize()\<close> sets its SQL text to the
  empty string and its parameter list to the empty list, and \<open>toString()\<close> returns the
  empty string right after it and after any further sequence of method calls.
\<close>

theorem finalize_clears:
  "sql (Statements_finalize this) = []
   \<and> params (Statements_finalize this) = []
   \<and> Statements_toString (Statements_finalize this) = []
   \<and> Statements_toString (fst (session P cs (Statements_finalize this, w))) = []"
  by (simp add: Statements_toString_def session_finalized Statements_finalize_def)

subsection \<open>bind\<close>

text \<open>
  C7, as amended. For every prepared statement, once \<open>bind(p1, ..., pn)\<close> has been called,
  every execution through \<open>all()\<close>, \<open>get()\<close>, \<open>run()\<close> or \<open>values()\<close> sends the statement's SQL
  text with exactly that parameter list, until \<open>bind\<close> or \<open>finalize\<close> is called; executing
  the statement never changes its SQL text or its bound parameters. (The claim as stated
  holds the list fixed until \<open>bind\<close> is called again, but \<open>finalize\<close> replaces it too.)
\<close>

theorem bound_params_reused:
  assumes "list_all (\<lambda>c. \<not> rebinds c) cs"
  shows "fst (session P cs (Statements_bind ps this, w)) = Statements_bind ps this
         \<and> sent (snd (session P cs (Statements_bind ps this, w)))
           = sent w @ concat (replicate (length (filter executes cs))
                                (requests_of (db this) (sql this) ps))"
proof -
  obtain st' w' where run: "session P cs (Statements_bind ps this, w) = (st', w')"
    by (cases "session P cs (Statements_bind ps this, w)")
  have fields: "db (Statements_bind ps this) = db this" "sql (Statements_bind ps this) = sql this"
    "params (Statements_bind ps this) = ps"
    by (simp_all add: Statements_bind_def)
  from session_keeps_binding [OF assms run] show ?thesis
    by (simp only: run fields fst_conv snd_conv)
qed

text \<open>
  The theorem at a statement bound to the parameter 1 and executed four times, with a
  \<open>toString()\<close> in between.
\<close>

theorem bound_params_reused_witness:
  "fst (session (stub (replies 200 (JObj [(''rows'', JArr [])])))
         [Call_all, Call_get, Call_toString, Call_run, Call_values]
         (Statements_bind [JNum 1] (Statements_new (RqliteDatabase_new ''http://localhost:4001'') ''SELECT ?''), w0))
     = Statements_bind [JNum 1] (Statements_new (RqliteDatabase_new ''http://localhost:4001'') ''SELECT ?'')
   \<and> sent (snd (session (stub (replies 200 (JObj [(''rows'', JArr [])])))
         [Call_all, Call_get, Call_toString, Call_run, Call_values]
         (Statements_bind [JNum 1] (Statements_new (RqliteDatabase_new ''http://localhost:4001'') ''SELECT ?''), w0)))
     = [\<lparr>url = ''http://localhost:4001/db/execute'',
         http_method = ''POST'',
         headers = [(''Content-Type'', ''application/json'')],
         body = Some (Text_object [(''sql'', Text_string ''SELECT ?''), (''params'', Text_array [Text_number 1])])\<rparr>,
        \<lparr>url = ''http://localhost:4001/db/execute'',
         http_method = ''POST'',
         headers = [(''Content-Type'', ''application/json'')],
         body = Some (Text_object [(''sql'', Text_string ''SELECT ?''), (''params'', Text_array [Text_number 1])])\<rparr>,
        \<lparr>url = ''http://localhost:4001/db/execute'',
         http_method = ''POST'',
         headers = [(''Content-Type'', ''application/json'')],
         body = Some (Text_object [(''sql'', Text_string ''SELECT ?''), (''params'', Text_array [Text_number 1])])\<rparr>,
        \<lparr>url = ''http://localhost:4001/db/execute'',
         http_method = ''POST'',
         headers = [(''Content-Type'', ''application/json'')],
         body = Some (Text_object [(''sql'', Text_string ''SELECT ?''), (''params'', Text_array [Text_number 1])])\<rparr>]"
  using bound_params_reused
    [of "[Call_all, Call_get, Call_toString, Call_run, Call_values]"
        "stub (replies 200 (JObj [(''rows'', JArr [])]))" "[JNum 1]"
        "Statements_new (RqliteDatabase_new ''http://localhost:4001'') ''SELECT ?''" w0]
  by (simp add: Statements_new_def w0_def requests_of_def execute_request_eq RqliteDatabase_new_def)

text \<open>
  Where the claim as stated fails: \<open>bind(1)\<close>, then \<open>finalize()\<close>, then \<open>run()\<close>. The
  request \<open>run\<close> sends carries the empty SQL text and the empty parameter list, not the
  bound one, though \<open>bind\<close> was not called again.
\<close>

theorem finalize_rebinds_counterexample:
  "sent (snd (session (stub (replies 200 (JObj [(''changes'', JNum 1), (''lastInsertRowid'', JNum 7)])))
           [Call_bind [JNum 1], Call_finalize, Call_run]
           (Statements_new (RqliteDatabase_new ''http://localhost:4001'') ''INSERT INTO t VALUES (?)'', w0)))
     = [\<lparr>url = ''http://localhost:4001/db/execute'',
         http_method = ''POST'',
         headers = [(''Content-Type'', ''application/json'')],
         body = Some (Text_object [(''sql'', Text_string []), (''params'', Text_array [])])\<rparr>]
   \<and> requests_of (RqliteDatabase_new ''http://localhost:4001'') ''INSERT INTO t VALUES (?)'' [JNum 1]
     = [\<lparr>url = ''http://localhost:4001/db/execute'',
         http_method = ''POST'',
         headers = [(''Content-Type'', ''application/json'')],
         body = Some (Text_object [(''sql'', Text_string ''INSERT INTO t VALUES (?)''), (''params'', Text_array [Text_number 1])])\<rparr>]"
  by (simp add: Statements_new_def Statements_bind_def Statements_finalize_def Statements_run_def
      run_eq execute_request_eq requests_of_def step_world_def w0_def RqliteDatabase_new_def)

subsection \<open>One request per call\<close>

text \<open>
  C8, as amended. Every call to \<open>run\<close>, \<open>get\<close> or \<open>query\<close> whose parameter list
  \<open>JSON.stringify\<close> can serialise adds exactly one request to those sent and consults the
  remote service exactly once; the request is a POST to the base URL followed by
  \<open>/db/execute\<close>, declared as JSON, and its body is the JSON text of the object holding the
  SQL text and the parameter list. A call whose parameter list cannot be serialised
  rejects with the error \<open>JSON.stringify\<close> throws and sends no request. (The claim as stated
  has every call send one request.)
\<close>

theorem one_POST_per_serialisable_call:
  "(SerializeJSONArray ps = Inr ys \<longrightarrow>
      sent (snd (RqliteDatabase_run P d s ps w)) = sent w @ 
          [\<lparr>url = baseUrl d @ ''/db/execute'',
             http_method = ''POST'',
             headers = [(''Content-Type'', ''application/json'')],
             body = Some (Text_object [(''sql'', Text_string s), (''params'', Text_array ys)])\<rparr>]
    \<and> sent (snd (RqliteDatabase_get P d s ps w)) = sent w @ 
          [\<lparr>url = baseUrl d @ ''/db/execute'',
             http_method = ''POST'',
             headers = [(''Content-Type'', ''application/json'')],
             body = Some (Text_object [(''sql'', Text_string s), (''params'', Text_array ys)])\<rparr>]
    \<and> sent (snd (RqliteDatabase_query P d s ps w)) = sent w @ 
          [\<lparr>url = baseUrl d @ ''/db/execute'',
             http_method = ''POST'',
             headers = [(''Content-Type'', ''application/json'')],
             body = Some (Text_object [(''sql'', Text_string s), (''params'', Text_array ys)])\<rparr>]
    \<and> remote (snd (RqliteDatabase_run P d s ps w)) = snd (fetch P (remote w) 
          \<lparr>url = baseUrl d @ ''/db/execute'',
            http_method = ''POST'',
            headers = [(''Content-Type'', ''application/json'')],
            body = Some (Text_object [(''sql'', Text_string s), (''params'', Text_array ys)])\<rparr>)
    \<and> remote (snd (RqliteDatabase_get P d s ps w)) = snd (fetch P (remote w) 
          \<lparr>url = baseUrl d @ ''/db/execute'',
            http_method = ''POST'',
            headers = [(''Content-Type'', ''application/json'')],
            body = Some (Text_object [(''sql'', Text_string s), (''params'', Text_array ys)])\<rparr>)
    \<and> remote (snd (RqliteDatabase_query P d s ps w)) = snd (fetch P (remote w) 
          \<lparr>url = baseUrl d @ ''/db/execute'',
            http_method = ''POST'',
            headers = [(''Content-Type'', ''application/json'')],
            body = Some (Text_object [(''sql'', Text_string s), (''params'', Text_array ys)])\<rparr>))
   \<and> (SerializeJSONArray ps = Inl e \<longrightarrow>
      RqliteDatabase_run P d s ps w = (Inl e, w)
    \<and> RqliteDatabase_get P d s ps w = (Inl e, w)
    \<and> RqliteDatabase_query P d s ps w = (Inl e, w))"
  by (simp add: run_eq get_eq query_eq execute_request_eq step_world_def)

text \<open>
  The theorem at a call with the parameter list \<open>[1, undefined]\<close>, and at a call with a
  BigInt parameter.
\<close>

theorem one_POST_per_serialisable_call_witness:
  "sent (snd (RqliteDatabase_get (stub (replies 200 (JObj [(''rows'', JArr [])])))
           (RqliteDatabase_new ''http://localhost:4001'') ''SELECT ?, ?'' [JNum 1, JUndefined] w0))
     = [\<lparr>url = ''http://localhost:4001/db/execute'',
         http_method = ''POST'',
         headers = [(''Content-Type'', ''application/json'')],
         body = Some (Text_object [(''sql'', Text_string ''SELECT ?, ?''), (''params'', Text_array [Text_number 1, Text_null])])\<rparr>]
   \<and> remote (snd (RqliteDatabase_get (stub (replies 200 (JObj [(''rows'', JArr [])])))
           (RqliteDatabase_new ''http://localhost:4001'') ''SELECT ?, ?'' [JNum 1, JUndefined] w0)) = 1
   \<and> RqliteDatabase_query (stub (replies 200 (JObj [(''rows'', JArr [])])))
           (RqliteDatabase_new ''http://localhost:4001'') ''SELECT ?'' [JBigInt 1] w0
     = (Inl (TypeError ''JSON.stringify cannot serialize BigInt''), w0)"
  using
    one_POST_per_serialisable_call
      [of "[JNum 1, JUndefined]" "[Text_number 1, Text_null]"
          "stub (replies 200 (JObj [(''rows'', JArr [])]))"
          "RqliteDatabase_new ''http://localhost:4001''" "''SELECT ?, ?''" w0]
    one_POST_per_serialisable_call
      [of "[JBigInt 1]" _
          "stub (replies 200 (JObj [(''rows'', JArr [])]))"
          "RqliteDatabase_new ''http://localhost:4001''" "''SELECT ?''" w0
          "TypeError ''JSON.stringify cannot serialize BigInt''"]
  by (simp add: stub_def replies_def w0_def RqliteDatabase_new_def)

text \<open>
  Where the claim as stated fails: \<open>run\<close> is called with a BigInt parameter.
  \<open>JSON.stringify\<close> throws before \<open>fetch\<close> is called: the call rejects and no request has
  been sent.
\<close>

theorem no_request_on_BigInt_counterexample:
  "RqliteDatabase_run (stub (replies 200 (JObj [(''changes'', JNum 1), (''lastInsertRowid'', JNum 7)])))
       (RqliteDatabase_new ''http://localhost:4001'') ''INSERT INTO t VALUES (?)'' [JBigInt 1] w0
     = (Inl (TypeError ''JSON.stringify cannot serialize BigInt''), w0)
   \<and> sent w0 = []"
  by (simp add: run_eq execute_request_eq w0_def)

subsection \<open>get and query\<close>

text \<open>
  C9. Whenever \<open>query(sql, params)\<close> resolves to a list, \<open>get(sql, params)\<close> from the same
  world resolves to the first element of that list, or to \<open>null\<close> when the list is empty,
  and leaves the same world behind; likewise a statement's \<open>get()\<close> and its \<open>all()\<close>.
\<close>

theorem get_is_head_of_query:
  "(RqliteDatabase_query P d s ps w = (Inr (JArr rs), w')
      \<longrightarrow> RqliteDatabase_get P d s ps w = (Inr (case rs of [] \<Rightarrow> JNull | r # _ \<Rightarrow> r), w'))
   \<and> (Statements_all P this w2 = (Inr (JArr rs2), w2')
      \<longrightarrow> Statements_get P this w2 = (Inr (case rs2 of [] \<Rightarrow> JNull | r # _ \<Rightarrow> r), w2'))"
  by (simp add: Statements_all_def Statements_get_def RqliteDatabase_get_def await_def settle_def
      first_or_null_array)

text \<open>
  The theorem at the database, on a service answering with two rows, and at a prepared
  statement, on a service answering with no row.
\<close>

theorem get_is_head_of_query_witness:
  "RqliteDatabase_get
       (stub (replies 200 (JObj [(''rows'', JArr [JObj [(''id'', JNum 2)], JObj [(''id'', JNum 1)]])])))
       (RqliteDatabase_new ''http://localhost:4001'') ''SELECT id FROM t'' [] w0
     = (Inr (JObj [(''id'', JNum 2)]),
        \<lparr>sent = [\<lparr>url = ''http://localhost:4001/db/execute'',
                 http_method = ''POST'',
                 headers = [(''Content-Type'', ''application/json'')],
                 body = Some (Text_object [(''sql'', Text_string ''SELECT id FROM t''), (''params'', Text_array [])])\<rparr>],
         remote = 1\<rparr>)
   \<and> Statements_get (stub (replies 200 (JObj [(''rows'', JArr [])])))
       (Statements_new (RqliteDatabase_new ''http://localhost:4001'') ''SELECT id FROM t'') w0
     = (Inr JNull,
        \<lparr>sent = [\<lparr>url = ''http://localhost:4001/db/execute'',
                 http_method = ''POST'',
                 headers = [(''Content-Type'', ''application/json'')],
                 body = Some (Text_object [(''sql'', Text_string ''SELECT id FROM t''), (''params'', Text_array [])])\<rparr>],
         remote = 1\<rparr>)"
  using
    get_is_head_of_query
      [of "stub (replies 200 (JObj [(''rows'', JArr [JObj [(''id'', JNum 2)], JObj [(''id'', JNum 1)]])]))"
          "RqliteDatabase_new ''http://localhost:4001''" "''SELECT id FROM t''" "[]" w0
          "[JObj [(''id'', JNum 2)], JObj [(''id'', JNum 1)]]"
          "\<lparr>sent = [\<lparr>url = ''http://localhost:4001/db/execute'',
                 http_method = ''POST'',
                 headers = [(''Content-Type'', ''application/json'')],
                 body = Some (Text_object [(''sql'', Text_string ''SELECT id FROM t''), (''params'', Text_array [])])\<rparr>],
         remote = 1\<rparr>"]
    get_is_head_of_query
      [of "stub (replies 200 (JObj [(''rows'', JArr [])]))" _ _ _ _ _ _
          "Statements_new (RqliteDatabase_new ''http://localhost:4001'') ''SELECT id FROM t''" w0
          "[]"
          "\<lparr>sent = [\<lparr>url = ''http://localhost:4001/db/execute'',
                 http_method = ''POST'',
                 headers = [(''Content-Type'', ''application/json'')],
                 body = Some (Text_object [(''sql'', Text_string ''SELECT id FROM t''), (''params'', Text_array [])])\<rparr>],
         remote = 1\<rparr>"]
  by (simp add: Statements_all_def Statements_new_def query_eq execute_request_eq answer_def
      andThen_def step_world_def stub_def replies_def w0_def RqliteDatabase_new_def)

subsection \<open>values\<close>




end
